theory Spec2Isabelle
  imports Complex_Main
begin

section \<open>Data exchanged with the evaluation service (services/api.ts)\<close>

text \<open>
  JavaScript strings are modelled as \<^typ>\<open>string\<close>, so only code units below 256 are
  represented. A TypeScript \<open>number\<close> that counts things is a \<^typ>\<open>nat\<close>; marks and
  percentages are exact rationals (the rounding of IEEE doubles is not modelled). Fields
  of different interfaces that share a name carry a short prefix, since record fields are
  global constants.
\<close>

datatype json = JNull | JBool bool | JNum rat | JStr string | JArr "json list"
  | JObj "(string \<times> json) list"

record js_file =
  file_name :: string
  file_size :: nat
  file_type :: string

record saved_file =
  original_name :: string
  saved_name :: string
  file_path :: string
  saved_file_size :: nat
  content_type :: string

record upload_metadata =
  um_upload_id :: string
  um_student_name :: string
  um_exam_id :: string
  um_paper_number :: "string option"
  um_upload_timestamp :: string
  um_files :: "saved_file list"
  um_status :: string
  um_processed :: bool

record UploadResponse =
  ur_message :: string
  ur_upload_id :: string
  ur_files_count :: nat
  ur_metadata :: upload_metadata

record evaluation =
  total_marks :: rat
  possible_marks :: rat
  percentage :: rat
  overall_feedback :: string

record processed_file =
  pf_file_name :: string
  extracted_text :: string
  text_length :: nat

record ProcessingResponse =
  pr_message :: string
  pr_upload_id :: string
  pr_student_name :: string
  processed_files :: "processed_file list"
  pr_evaluation :: evaluation
  detailed_results :: json

record EvaluationResults =
  er_upload_id :: string
  er_student_name :: string
  er_exam_id :: string
  er_paper_number :: "string option"
  er_upload_timestamp :: string
  er_processing_timestamp :: string
  er_files_count :: nat
  evaluation_results :: json

datatype result_status = Success | Error

record batch_result =
  br_upload_id :: string
  br_student_name :: string
  br_status :: result_status
  br_evaluation :: "evaluation option"
  br_error :: "string option"

record batch_statistics =
  total_students :: nat
  successful :: nat
  failed :: nat
  average_percentage :: rat
  total_marks_awarded :: rat
  total_possible_marks :: rat

record BatchProcessingResponse =
  bp_message :: string
  bp_batch_id :: string
  bp_statistics :: batch_statistics
  bp_results :: "batch_result list"

record BatchResults =
  bres_batch_id :: string
  bres_exam_id :: string
  bres_paper_number :: "string option"
  bres_total_students :: nat
  bres_upload_timestamp :: string
  bres_processing_timestamp :: string
  bres_statistics :: batch_statistics
  bres_results :: "batch_result list"

section \<open>The axios instance and the requests it sends\<close>

text \<open>
  A request is what leaves the client: method, URL relative to the instance's base URL,
  the timeout in milliseconds, the content type header and the body. A call's own
  configuration overrides the defaults of the instance field by field; a field the call
  leaves out keeps the default.
\<close>

datatype http_method = GET | POST

datatype form_value = FileEntry js_file | FieldEntry string

datatype request_body = NoBody | FormData "(string \<times> form_value) list"

record axios_config =
  cfg_timeout :: "nat option"
  cfg_content_type :: "string option"

record http_request =
  rq_method :: http_method
  rq_url :: string
  rq_timeout :: nat
  rq_content_type :: string
  rq_body :: request_body

text \<open>\<open>axios.create({ timeout: 120000, headers: { 'Content-Type': 'application/json' } })\<close>\<close>

definition api_timeout :: nat where
  "api_timeout = 120000"

definition api_content_type :: string where
  "api_content_type = ''application/json''"

definition no_config :: axios_config where
  "no_config = \<lparr>cfg_timeout = None, cfg_content_type = None\<rparr>"

definition multipart_config :: axios_config where
  "multipart_config = \<lparr>cfg_timeout = None, cfg_content_type = Some ''multipart/form-data''\<rparr>"

definition api_request :: "http_method \<Rightarrow> string \<Rightarrow> request_body \<Rightarrow> axios_config \<Rightarrow> http_request" where
  "api_request m u b c =
     \<lparr>rq_method = m, rq_url = u,
      rq_timeout = (case cfg_timeout c of Some t \<Rightarrow> t | None \<Rightarrow> api_timeout),
      rq_content_type = (case cfg_content_type c of Some h \<Rightarrow> h | None \<Rightarrow> api_content_type),
      rq_body = b\<rparr>"

definition api_post :: "string \<Rightarrow> request_body \<Rightarrow> axios_config \<Rightarrow> http_request" where
  "api_post u b c = api_request POST u b c"

definition api_get :: "string \<Rightarrow> http_request" where
  "api_get u = api_request GET u NoBody no_config"

text \<open>
  The body \<open>uploadAnswerSheet\<close> builds: one \<open>files\<close> entry per file, the two required
  fields, and \<open>paper_number\<close> only when the argument is truthy (defined and not empty).
\<close>

definition upload_form :: "js_file list \<Rightarrow> string \<Rightarrow> string \<Rightarrow> string option \<Rightarrow> (string \<times> form_value) list" where
  "upload_form files sname eid pnum =
     map (\<lambda>f. (''files'', FileEntry f)) files
     @ [(''student_name'', FieldEntry sname), (''exam_id'', FieldEntry eid)]
     @ (case pnum of
          Some p \<Rightarrow> (if p \<noteq> [] then [(''paper_number'', FieldEntry p)] else [])
        | None \<Rightarrow> [])"

definition uploadAnswerSheet_request :: "js_file list \<Rightarrow> string \<Rightarrow> string \<Rightarrow> string option \<Rightarrow> http_request" where
  "uploadAnswerSheet_request files sname eid pnum =
     api_post ''/upload/answer-sheet'' (FormData (upload_form files sname eid pnum)) multipart_config"

definition processAnswerSheet_request :: "string \<Rightarrow> http_request" where
  "processAnswerSheet_request uploadId = api_post (''/process/answer-sheet/'' @ uploadId) NoBody no_config"

definition getEvaluationResults_request :: "string \<Rightarrow> http_request" where
  "getEvaluationResults_request uploadId = api_get (''/results/'' @ uploadId)"

definition listUploads_request :: http_request where
  "listUploads_request = api_get ''/uploads''"

definition processBatchAnswerSheets_request :: "string \<Rightarrow> http_request" where
  "processBatchAnswerSheets_request batchId = api_post (''/process/batch/'' @ batchId) NoBody no_config"

definition getBatchEvaluationResults_request :: "string \<Rightarrow> http_request" where
  "getBatchEvaluationResults_request batchId = api_get (''/batch/results/'' @ batchId)"

section \<open>Transport\<close>

text \<open>
  The network is a parameter: a transport answers a request in a remote state with either
  the error axios rejects with or a response, and the next remote state. Of the error the
  client reads \<open>err.response?.data?.detail\<close>, which is whatever JSON value the service put
  there (or absent), and \<open>err.message\<close>, the message of the error object (or absent).
  The client's side of the world records every request it has issued, in order.
\<close>

record 'd axios_response =
  ar_data :: 'd
  ar_status :: nat

record axios_error =
  err_detail :: "json option"
  err_message :: "string option"

type_synonym ('s, 'd) transport = "http_request \<Rightarrow> 's \<Rightarrow> (axios_error + 'd axios_response) \<times> 's"

record 's world =
  remote :: 's
  issued :: "http_request list"

text \<open>\<open>const response = await this.api.post(...); return response.data;\<close>\<close>

definition send :: "('s, 'd) transport \<Rightarrow> http_request \<Rightarrow> 's world \<Rightarrow> (axios_error + 'd) \<times> 's world" where
  "send tr req w =
     (case tr req (remote w) of
        (Inl err, s') \<Rightarrow> (Inl err, \<lparr>remote = s', issued = issued w @ [req]\<rparr>)
      | (Inr response, s') \<Rightarrow> (Inr (ar_data response), \<lparr>remote = s', issued = issued w @ [req]\<rparr>))"

definition uploadAnswerSheet ::
  "('s, UploadResponse) transport \<Rightarrow> js_file list \<Rightarrow> string \<Rightarrow> string \<Rightarrow> string option
     \<Rightarrow> 's world \<Rightarrow> (axios_error + UploadResponse) \<times> 's world" where
  "uploadAnswerSheet tr files sname eid pnum w = send tr (uploadAnswerSheet_request files sname eid pnum) w"

definition processAnswerSheet ::
  "('s, ProcessingResponse) transport \<Rightarrow> string \<Rightarrow> 's world \<Rightarrow> (axios_error + ProcessingResponse) \<times> 's world" where
  "processAnswerSheet tr uploadId w = send tr (processAnswerSheet_request uploadId) w"

definition getEvaluationResults ::
  "('s, EvaluationResults) transport \<Rightarrow> string \<Rightarrow> 's world \<Rightarrow> (axios_error + EvaluationResults) \<times> 's world" where
  "getEvaluationResults tr uploadId w = send tr (getEvaluationResults_request uploadId) w"

definition processBatchAnswerSheets ::
  "('s, BatchProcessingResponse) transport \<Rightarrow> string \<Rightarrow> 's world
     \<Rightarrow> (axios_error + BatchProcessingResponse) \<times> 's world" where
  "processBatchAnswerSheets tr batchId w = send tr (processBatchAnswerSheets_request batchId) w"

definition getBatchEvaluationResults ::
  "('s, BatchResults) transport \<Rightarrow> string \<Rightarrow> 's world \<Rightarrow> (axios_error + BatchResults) \<times> 's world" where
  "getBatchEvaluationResults tr batchId w = send tr (getBatchEvaluationResults_request batchId) w"

section \<open>The upload page (pages/UploadPage.tsx)\<close>

subsection \<open>Strings\<close>

text \<open>
  \<open>String.prototype.trim\<close> strips white space and line terminators from both ends; these
  are the ones among the code units below 256.
\<close>

definition isWhiteSpace :: "char \<Rightarrow> bool" where
  "isWhiteSpace c = (c \<in> set [CHR 0x09, CHR 0x0A, CHR 0x0B, CHR 0x0C, CHR 0x0D, CHR 0x20, CHR 0xA0])"

definition trim :: "string \<Rightarrow> string" where
  "trim s = rev (dropWhile isWhiteSpace (rev (dropWhile isWhiteSpace s)))"

definition startsWith :: "string \<Rightarrow> string \<Rightarrow> bool" where
  "startsWith s p = (take (length p) s = p)"

text \<open>
  Truthiness of a JavaScript value: \<open>null\<close>, \<open>false\<close>, 0 and the empty string are falsy,
  every array and object is truthy. An absent value (\<open>undefined\<close>) is \<open>None\<close> and falsy.
\<close>

fun truthy :: "json \<Rightarrow> bool" where
  "truthy JNull = False"
| "truthy (JBool b) = b"
| "truthy (JNum n) = (n \<noteq> 0)"
| "truthy (JStr s) = (s \<noteq> [])"
| "truthy (JArr vs) = True"
| "truthy (JObj kvs) = True"

text \<open>\<open>a || b\<close>: the left operand when it is truthy, otherwise the right one.\<close>

definition js_or :: "json option \<Rightarrow> json option \<Rightarrow> json option" where
  "js_or a b = (case a of Some v \<Rightarrow> (if truthy v then Some v else b) | None \<Rightarrow> b)"

definition js_or_literal :: "json option \<Rightarrow> string \<Rightarrow> json" where
  "js_or_literal a d = (case a of Some v \<Rightarrow> (if truthy v then v else JStr d) | None \<Rightarrow> JStr d)"

text \<open>\<open>s || undefined\<close>\<close>

definition or_undefined :: "string \<Rightarrow> string option" where
  "or_undefined s = (if s \<noteq> [] then Some s else None)"

subsection \<open>Component state\<close>

text \<open>
  The \<open>error\<close> state is declared \<open>string | null\<close>, but the catch block of \<open>handleSubmit\<close>
  stores whatever value its expression yields (\<open>err\<close> is \<open>any\<close>), so the field holds a
  JavaScript value; \<open>null\<close> is \<open>None\<close>.
\<close>

record UploadedFile =
  uf_file :: js_file
  preview :: "string option"

record page_state =
  uploadedFiles :: "UploadedFile list"
  studentName :: string
  examId :: string
  paperNumber :: string
  uploading :: bool
  processing :: bool
  error :: "json option"
  success :: "string option"

definition initial_state :: page_state where
  "initial_state =
     \<lparr>uploadedFiles = [], studentName = [], examId = [], paperNumber = [],
      uploading = False, processing = False, error = None, success = None\<rparr>"

subsection \<open>File selection\<close>

record dropzone_options =
  accept :: "(string \<times> string list) list"
  multiple :: bool
  maxSize :: nat

definition dropzoneOptions :: dropzone_options where
  "dropzoneOptions =
     \<lparr>accept =
        [(''image/*'', [''.jpeg'', ''.jpg'', ''.png'', ''.bmp'', ''.tiff'', ''.gif'']),
         (''application/pdf'', [''.pdf'']),
         (''text/plain'', [''.txt'']),
         (''text/markdown'', [''.md'']),
         (''text/csv'', [''.csv'']),
         (''application/msword'', [''.doc'']),
         (''application/vnd.openxmlformats-officedocument.wordprocessingml.document'', [''.docx'']),
         (''application/rtf'', [''.rtf''])],
      multiple = True,
      maxSize = 50 * 1024 * 1024\<rparr>"

text \<open>
  Modelled from the spec: the file-selection step itself (the drop zone widget that
  \<open>useDropzone\<close> configures) is not among the sources. It hands \<open>onDrop\<close> the selected
  files that pass the type filter and whose size is at most the configured maximum. The
  type filter is the parameter \<open>type_ok\<close>.
\<close>

definition fileAccepted :: "dropzone_options \<Rightarrow> (js_file \<Rightarrow> bool) \<Rightarrow> js_file \<Rightarrow> bool" where
  "fileAccepted opts type_ok f = (type_ok f \<and> file_size f \<le> maxSize opts)"

text \<open>\<open>onDrop\<close>; \<open>URL.createObjectURL\<close> is the parameter \<open>createObjectURL\<close>.\<close>

definition onDrop :: "(js_file \<Rightarrow> string) \<Rightarrow> js_file list \<Rightarrow> page_state \<Rightarrow> page_state" where
  "onDrop createObjectURL acceptedFiles st =
     st\<lparr>uploadedFiles := uploadedFiles st
            @ map (\<lambda>f. \<lparr>uf_file = f,
                         preview = (if startsWith (file_type f) ''image/''
                                    then Some (createObjectURL f) else None)\<rparr>) acceptedFiles,
        error := None\<rparr>"

text \<open>\<open>prev.filter((_, i) => i !== index)\<close>\<close>

definition removeFile :: "nat \<Rightarrow> page_state \<Rightarrow> page_state" where
  "removeFile index st =
     st\<lparr>uploadedFiles := map snd (filter (\<lambda>p. fst p \<noteq> index) (enumerate 0 (uploadedFiles st)))\<rparr>"

text \<open>The two events that change the file list, and a sequence of them.\<close>

datatype file_event = Select "js_file list" | Remove nat

fun file_step :: "(js_file \<Rightarrow> bool) \<Rightarrow> (js_file \<Rightarrow> string) \<Rightarrow> page_state \<Rightarrow> file_event \<Rightarrow> page_state" where
  "file_step type_ok createObjectURL st (Select files) =
     onDrop createObjectURL (filter (fileAccepted dropzoneOptions type_ok) files) st"
| "file_step type_ok createObjectURL st (Remove index) = removeFile index st"

definition file_steps :: "(js_file \<Rightarrow> bool) \<Rightarrow> (js_file \<Rightarrow> string) \<Rightarrow> file_event list \<Rightarrow> page_state \<Rightarrow> page_state" where
  "file_steps type_ok createObjectURL evs st = foldl (file_step type_ok createObjectURL) st evs"

subsection \<open>Submitting\<close>

text \<open>
  One invocation of \<open>handleSubmit\<close> yields the component state it leaves, the states shown
  while it was suspended at each \<open>await\<close>, the world after it, and the navigation it has
  scheduled (delay in milliseconds and path). No other event is interleaved with it.
\<close>

record 's submit_run =
  final :: page_state
  rendered :: "page_state list"
  world_after :: "'s world"
  navigation :: "(nat \<times> string) option"

definition rejected :: "string \<Rightarrow> page_state \<Rightarrow> 's world \<Rightarrow> 's submit_run" where
  "rejected msg st w =
     \<lparr>final = st\<lparr>error := Some (JStr msg)\<rparr>, rendered = [], world_after = w, navigation = None\<rparr>"

text \<open>\<open>err.response?.data?.detail || err.message || 'Upload failed'\<close>\<close>

definition error_value :: "axios_error \<Rightarrow> json" where
  "error_value err =
     js_or_literal (js_or (err_detail err) (map_option JStr (err_message err))) ''Upload failed''"

definition catch_block :: "axios_error \<Rightarrow> page_state \<Rightarrow> page_state" where
  "catch_block err st = st\<lparr>error := Some (error_value err)\<rparr>"

text \<open>What the error banner can show as a message: a string that is not empty.\<close>

definition is_message :: "json \<Rightarrow> bool" where
  "is_message v = (case v of JStr s \<Rightarrow> s \<noteq> [] | _ \<Rightarrow> False)"

definition finally_block :: "page_state \<Rightarrow> page_state" where
  "finally_block st = st\<lparr>uploading := False, processing := False\<rparr>"

definition upload_started :: "page_state \<Rightarrow> page_state" where
  "upload_started st = st\<lparr>uploading := True, error := None, success := None\<rparr>"

definition upload_done :: "page_state \<Rightarrow> page_state" where
  "upload_done st =
     st\<lparr>success := Some ''Files uploaded successfully! AI evaluation in progress...'',
        processing := True, uploading := False\<rparr>"

definition submit_upload ::
  "('s, UploadResponse) transport \<Rightarrow> page_state \<Rightarrow> 's world \<Rightarrow> (axios_error + UploadResponse) \<times> 's world" where
  "submit_upload tu st w =
     uploadAnswerSheet tu (map uf_file (uploadedFiles st)) (trim (studentName st)) (trim (examId st))
       (or_undefined (trim (paperNumber st))) w"

definition handleSubmit ::
  "('s, UploadResponse) transport \<Rightarrow> ('s, ProcessingResponse) transport \<Rightarrow> page_state \<Rightarrow> 's world
     \<Rightarrow> 's submit_run" where
  "handleSubmit tu tp st w =
     (if trim (studentName st) = [] then rejected ''Student name is required'' st w
      else if trim (examId st) = [] then rejected ''Exam ID is required'' st w
      else if length (uploadedFiles st) = 0 then rejected ''Please upload at least one file'' st w
      else
        (case submit_upload tu st w of
           (Inl err, w1) \<Rightarrow>
             \<lparr>final = finally_block (catch_block err (upload_started st)),
              rendered = [upload_started st], world_after = w1, navigation = None\<rparr>
         | (Inr uploadResponse, w1) \<Rightarrow>
             (case processAnswerSheet tp (ur_upload_id uploadResponse) w1 of
                (Inl err, w2) \<Rightarrow>
                  \<lparr>final = finally_block (catch_block err (upload_done (upload_started st))),
                   rendered = [upload_started st, upload_done (upload_started st)],
                   world_after = w2, navigation = None\<rparr>
              | (Inr processResponse, w2) \<Rightarrow>
                  \<lparr>final = finally_block
                     ((upload_done (upload_started st))\<lparr>success := Some ''Evaluation completed successfully!''\<rparr>),
                   rendered = [upload_started st, upload_done (upload_started st)],
                   world_after = w2,
                   navigation = Some (2000, ''/results/'' @ ur_upload_id uploadResponse)\<rparr>)))"

text \<open>The submit button: \<open>disabled={!isFormValid || uploading || processing}\<close>.\<close>

definition isFormValid :: "page_state \<Rightarrow> bool" where
  "isFormValid st = (trim (studentName st) \<noteq> [] \<and> trim (examId st) \<noteq> [] \<and> length (uploadedFiles st) > 0)"

definition submit_disabled :: "page_state \<Rightarrow> bool" where
  "submit_disabled st = (\<not> isFormValid st \<or> uploading st \<or> processing st)"

section \<open>Batch statistics\<close>

text \<open>
  Modelled from the spec: the function that derives the statistics of a batch from its
  outcomes is not among the sources (the client only declares the shape of the statistics
  it receives). The counts are over all outcomes, over the successful ones and over the
  failed ones; the average is the mean of the percentages of the successful outcomes and 0
  when there is none; the two totals are sums over the successful outcomes.
\<close>

definition successes :: "batch_result list \<Rightarrow> batch_result list" where
  "successes rs = filter (\<lambda>r. br_status r = Success) rs"

definition success_evaluations :: "batch_result list \<Rightarrow> evaluation list" where
  "success_evaluations rs = List.map_filter br_evaluation (successes rs)"

definition batchStatistics :: "batch_result list \<Rightarrow> batch_statistics" where
  "batchStatistics rs =
     \<lparr>total_students = length rs,
      successful = length (successes rs),
      failed = length (filter (\<lambda>r. br_status r = Error) rs),
      average_percentage =
        (if length (successes rs) = 0 then 0
         else sum_list (map percentage (success_evaluations rs)) / of_nat (length (successes rs))),
      total_marks_awarded = sum_list (map total_marks (success_evaluations rs)),
      total_possible_marks = sum_list (map possible_marks (success_evaluations rs))\<rparr>"

text \<open>
  An outcome as the data model has it: the evaluation is present exactly when the status
  is success, the error exactly when it is not, and a percentage lies between 0 and 100.
\<close>

definition outcome_ok :: "batch_result \<Rightarrow> bool" where
  "outcome_ok r =
     (case br_status r of
        Success \<Rightarrow>
          (case br_evaluation r of
             Some e \<Rightarrow> 0 \<le> percentage e \<and> percentage e \<le> 100 \<and> br_error r = None
           | None \<Rightarrow> False)
      | Error \<Rightarrow> br_evaluation r = None \<and> br_error r \<noteq> None)"

section \<open>Concrete runs\<close>

text \<open>
  A submission and the answers of a service, used to run the definitions: Alice submits
  one PDF for MID-2024, the service names the session abc123 and marks it 18 out of 20.
\<close>

definition answer_with :: "'d \<Rightarrow> ('s, 'd) transport" where
  "answer_with d = (\<lambda>req s. (Inr \<lparr>ar_data = d, ar_status = 200\<rparr>, s))"

definition fail_with :: "axios_error \<Rightarrow> ('s, 'd) transport" where
  "fail_with err = (\<lambda>req s. (Inl err, s))"

definition fresh_world :: "unit world" where
  "fresh_world = \<lparr>remote = (), issued = []\<rparr>"

definition alice_pdf :: js_file where
  "alice_pdf = \<lparr>file_name = ''answers.pdf'', file_size = 204800, file_type = ''application/pdf''\<rparr>"

definition alice_state :: page_state where
  "alice_state =
     \<lparr>uploadedFiles = [\<lparr>uf_file = alice_pdf, preview = None\<rparr>], studentName = ''Alice'',
      examId = ''MID-2024'', paperNumber = [],
      uploading = False, processing = False, error = None, success = None\<rparr>"

definition abc123_uploaded :: UploadResponse where
  "abc123_uploaded =
     \<lparr>ur_message = ''Files uploaded'', ur_upload_id = ''abc123'', ur_files_count = 1,
      ur_metadata =
        \<lparr>um_upload_id = ''abc123'', um_student_name = ''Alice'', um_exam_id = ''MID-2024'',
         um_paper_number = None, um_upload_timestamp = ''2024-03-01T10:00:00'',
         um_files = [], um_status = ''uploaded'', um_processed = False\<rparr>\<rparr>"

definition abc123_processed :: ProcessingResponse where
  "abc123_processed =
     \<lparr>pr_message = ''Processed'', pr_upload_id = ''abc123'', pr_student_name = ''Alice'',
      processed_files = [],
      pr_evaluation = \<lparr>total_marks = 18, possible_marks = 20, percentage = 90, overall_feedback = ''Good''\<rparr>,
      detailed_results = JNull\<rparr>"

definition abc123_results :: EvaluationResults where
  "abc123_results =
     \<lparr>er_upload_id = ''abc123'', er_student_name = ''Alice'', er_exam_id = ''MID-2024'',
      er_paper_number = None, er_upload_timestamp = ''2024-03-01T10:00:00'',
      er_processing_timestamp = ''2024-03-01T10:02:00'', er_files_count = 1,
      evaluation_results = JNull\<rparr>"

definition unreadable :: axios_error where
  "unreadable =
     \<lparr>err_detail = Some (JStr ''Document unreadable''),
      err_message = Some ''Request failed with status code 500''\<rparr>"

text \<open>
  The answer of a service that rejects the request body with status 422: the detail is a
  list of objects, one per offending field.
\<close>

definition field_errors :: json where
  "field_errors =
     JArr [JObj [(''loc'', JArr [JStr ''body'', JStr ''files'']),
                 (''msg'', JStr ''field required''),
                 (''type'', JStr ''value_error.missing'')]]"

definition unprocessable :: axios_error where
  "unprocessable =
     \<lparr>err_detail = Some field_errors, err_message = Some ''Request failed with status code 422''\<rparr>"

definition huge_scan :: js_file where
  "huge_scan = \<lparr>file_name = ''scan.tiff'', file_size = 52428801, file_type = ''image/tiff''\<rparr>"

text \<open>A batch answer whose statistics do not match its (empty) list of results.\<close>

definition claimed_statistics :: batch_statistics where
  "claimed_statistics =
     \<lparr>total_students = 3, successful = 1, failed = 1, average_percentage = 250,
      total_marks_awarded = 0, total_possible_marks = 0\<rparr>"

definition odd_batch_processed :: BatchProcessingResponse where
  "odd_batch_processed =
     \<lparr>bp_message = ''Batch processed'', bp_batch_id = ''b1'', bp_statistics = claimed_statistics,
      bp_results = []\<rparr>"

definition odd_batch_results :: BatchResults where
  "odd_batch_results =
     \<lparr>bres_batch_id = ''b1'', bres_exam_id = ''MID-2024'', bres_paper_number = None,
      bres_total_students = 3, bres_upload_timestamp = ''2024-03-01T10:00:00'',
      bres_processing_timestamp = ''2024-03-01T10:02:00'', bres_statistics = claimed_statistics,
      bres_results = []\<rparr>"

definition two_outcomes :: "batch_result list" where
  "two_outcomes =
     [\<lparr>br_upload_id = ''u1'', br_student_name = ''Alice'', br_status = Success,
       br_evaluation = Some \<lparr>total_marks = 18, possible_marks = 20, percentage = 90, overall_feedback = ''Good''\<rparr>,
       br_error = None\<rparr>,
      \<lparr>br_upload_id = ''u2'', br_student_name = ''Bob'', br_status = Error,
       br_evaluation = None, br_error = Some ''Document unreadable''\<rparr>]"

section \<open>Timeouts\<close>

lemmas request_defs =
  uploadAnswerSheet_request_def processAnswerSheet_request_def getEvaluationResults_request_def
  listUploads_request_def processBatchAnswerSheets_request_def getBatchEvaluationResults_request_def
  api_post_def api_get_def api_request_def no_config_def multipart_config_def

text \<open>
  C1, as stated, fails: the request of \<open>processAnswerSheet\<close> does not carry a longer
  timeout than the request of \<open>uploadAnswerSheet\<close>; both carry the timeout of the one shared
  instance.
\<close>

theorem process_timeout_not_longer:
  "\<not> rq_timeout (uploadAnswerSheet_request [] ''Alice'' ''MID-2024'' None)
       < rq_timeout (processAnswerSheet_request ''abc123'')"
  by (simp add: request_defs)

text \<open>
  C1, amended: the requests of \<open>processAnswerSheet\<close>, \<open>processBatchAnswerSheets\<close>,
  \<open>uploadAnswerSheet\<close>, \<open>getEvaluationResults\<close> and \<open>listUploads\<close> each carry a timeout of
  exactly 120000 ms, the default of the instance they are sent through, which none of
  them overrides; the timeout of process is equal to, not longer than, that of the other
  three.
\<close>

theorem all_requests_share_timeout:
  "rq_timeout (processAnswerSheet_request uploadId) = 120000
   \<and> rq_timeout (processBatchAnswerSheets_request batchId) = 120000
   \<and> rq_timeout (uploadAnswerSheet_request files sname eid pnum) = 120000
   \<and> rq_timeout (getEvaluationResults_request uploadId') = 120000
   \<and> rq_timeout listUploads_request = 120000"
  by (simp add: request_defs api_timeout_def)

section \<open>Requests and responses\<close>

lemma send_issued: "issued (snd (send tr req w)) = issued w @ [req]"
  by (simp add: send_def split: prod.splits sum.splits)

lemma send_fst: "fst (send tr req w) = map_sum id ar_data (fst (tr req (remote w)))"
  by (simp add: send_def split: prod.splits sum.splits)

lemma send_remote: "remote (snd (send tr req w)) = snd (tr req (remote w))"
  by (simp add: send_def split: prod.splits sum.splits)

lemmas run_defs =
  submit_upload_def uploadAnswerSheet_def processAnswerSheet_def send_def answer_with_def
  fail_with_def fresh_world_def

section \<open>Batch statistics as the client exposes them\<close>

text \<open>
  C2, as stated, fails: \<open>processBatchAnswerSheets\<close> returns the answer of the service as it
  is. Here the service reports three students, one success and an average of 250 for an
  empty list of results, and the client exposes exactly that, not the statistics of the
  empty list.
\<close>

theorem server_statistics_verbatim:
  "fst (processBatchAnswerSheets (answer_with odd_batch_processed) ''b1'' fresh_world)
     = Inr odd_batch_processed
   \<and> bp_statistics odd_batch_processed \<noteq> batchStatistics (bp_results odd_batch_processed)"
  by (simp add: processBatchAnswerSheets_def send_def answer_with_def fresh_world_def
      odd_batch_processed_def claimed_statistics_def batchStatistics_def successes_def)

text \<open>
  C2, amended: the statistics that \<open>processBatchAnswerSheets\<close> and
  \<open>getBatchEvaluationResults\<close> expose are the statistics object of the service's response,
  unchanged; an error of the transport is passed on unchanged as well. The client
  recomputes nothing.
\<close>

theorem batch_statistics_passed_through:
  "map_sum id bp_statistics (fst (processBatchAnswerSheets tr batchId w))
     = map_sum id (\<lambda>response. bp_statistics (ar_data response))
         (fst (tr (processBatchAnswerSheets_request batchId) (remote w)))
   \<and> map_sum id bres_statistics (fst (getBatchEvaluationResults trb batchId w))
     = map_sum id (\<lambda>response. bres_statistics (ar_data response))
         (fst (trb (getBatchEvaluationResults_request batchId) (remote w)))"
  by (simp add: processBatchAnswerSheets_def getBatchEvaluationResults_def send_fst sum.map_comp
      comp_def id_def)

section \<open>Reads\<close>

text \<open>
  C7: \<open>getEvaluationResults\<close> and \<open>getBatchEvaluationResults\<close> each issue one GET request and
  nothing else, and when the call has left the remote state as it was, calling again with
  the same id returns the same data (or the same error).
\<close>

theorem repeated_fetch_identical:
  "(remote (snd (getEvaluationResults tr uploadId w)) = remote w \<longrightarrow>
      fst (getEvaluationResults tr uploadId (snd (getEvaluationResults tr uploadId w)))
        = fst (getEvaluationResults tr uploadId w))
   \<and> (remote (snd (getBatchEvaluationResults trb batchId w)) = remote w \<longrightarrow>
      fst (getBatchEvaluationResults trb batchId (snd (getBatchEvaluationResults trb batchId w)))
        = fst (getBatchEvaluationResults trb batchId w))
   \<and> issued (snd (getEvaluationResults tr uploadId w)) = issued w @ [getEvaluationResults_request uploadId]
   \<and> issued (snd (getBatchEvaluationResults trb batchId w))
        = issued w @ [getBatchEvaluationResults_request batchId]
   \<and> rq_method (getEvaluationResults_request uploadId) = GET
   \<and> rq_method (getBatchEvaluationResults_request batchId) = GET"
  by (simp add: getEvaluationResults_def getBatchEvaluationResults_def send_fst send_remote send_issued)
     (simp add: getEvaluationResults_request_def getBatchEvaluationResults_request_def api_get_def
        api_request_def)

text \<open>Fetching the results of abc123 and of batch b1 twice from a service that only reads.\<close>

theorem repeated_fetch_identical_witness:
  "fst (getEvaluationResults (answer_with abc123_results) ''abc123''
          (snd (getEvaluationResults (answer_with abc123_results) ''abc123'' fresh_world)))
     = Inr abc123_results
   \<and> fst (getEvaluationResults (answer_with abc123_results) ''abc123'' fresh_world) = Inr abc123_results
   \<and> fst (getBatchEvaluationResults (answer_with odd_batch_results) ''b1''
          (snd (getBatchEvaluationResults (answer_with odd_batch_results) ''b1'' fresh_world)))
     = Inr odd_batch_results"
  using repeated_fetch_identical [where tr = "answer_with abc123_results" and uploadId = "''abc123''"
      and w = fresh_world and trb = "answer_with odd_batch_results" and batchId = "''b1''"]
  by (simp add: getEvaluationResults_def getBatchEvaluationResults_def send_def answer_with_def
      fresh_world_def)

section \<open>The single-submission workflow\<close>

lemma handleSubmit_valid:
  assumes "isFormValid st"
  shows "handleSubmit tu tp st w =
        (case submit_upload tu st w of
           (Inl err, w1) \<Rightarrow>
             \<lparr>final = finally_block (catch_block err (upload_started st)),
              rendered = [upload_started st], world_after = w1, navigation = None\<rparr>
         | (Inr uploadResponse, w1) \<Rightarrow>
             (case processAnswerSheet tp (ur_upload_id uploadResponse) w1 of
                (Inl err, w2) \<Rightarrow>
                  \<lparr>final = finally_block (catch_block err (upload_done (upload_started st))),
                   rendered = [upload_started st, upload_done (upload_started st)],
                   world_after = w2, navigation = None\<rparr>
              | (Inr processResponse, w2) \<Rightarrow>
                  \<lparr>final = finally_block
                     ((upload_done (upload_started st))\<lparr>success := Some ''Evaluation completed successfully!''\<rparr>),
                   rendered = [upload_started st, upload_done (upload_started st)],
                   world_after = w2,
                   navigation = Some (2000, ''/results/'' @ ur_upload_id uploadResponse)\<rparr>))"
  using assms by (simp add: handleSubmit_def isFormValid_def)

lemma error_value_truthy: "truthy (error_value err)"
  by (simp add: error_value_def js_or_def js_or_literal_def split: option.splits)

lemma error_value_cases:
  "error_value err =
     (if err_detail err \<noteq> None \<and> truthy (the (err_detail err)) then the (err_detail err)
      else if err_message err \<notin> {None, Some []} then JStr (the (err_message err))
      else JStr ''Upload failed'')"
  by (auto simp add: error_value_def js_or_def js_or_literal_def split: option.splits)

lemma finally_flags: "\<not> uploading (finally_block st) \<and> \<not> processing (finally_block st)"
  by (simp add: finally_block_def)

lemma finally_keeps: "error (finally_block st) = error st \<and> success (finally_block st) = success st"
  by (simp add: finally_block_def)

lemma catch_sets: "error (catch_block err st) = Some (error_value err) \<and> success (catch_block err st) = success st"
  by (simp add: catch_block_def)

text \<open>The submit button is enabled only on a valid form with neither flag set.\<close>

lemma enabled_flags: "\<not> submit_disabled st \<Longrightarrow> isFormValid st \<and> \<not> uploading st \<and> \<not> processing st"
  by (simp add: submit_disabled_def)

text \<open>
  C3: when the trimmed student name is empty, the trimmed exam ID is empty or no file has
  been added, \<open>handleSubmit\<close> only sets the validation message of the first failing check:
  the rest of the state, the uploading flag included, is untouched, no request is issued,
  the remote state is unchanged, and the run is never suspended at a network call.
\<close>

theorem handleSubmit_rejects_invalid:
  assumes "trim (studentName st) = [] \<or> trim (examId st) = [] \<or> uploadedFiles st = []"
  shows "final (handleSubmit tu tp st w) =
           st\<lparr>error := Some (JStr (if trim (studentName st) = [] then ''Student name is required''
                                    else if trim (examId st) = [] then ''Exam ID is required''
                                    else ''Please upload at least one file''))\<rparr>
         \<and> world_after (handleSubmit tu tp st w) = w
         \<and> rendered (handleSubmit tu tp st w) = []
         \<and> navigation (handleSubmit tu tp st w) = None"
  using assms by (auto simp add: handleSubmit_def rejected_def)

text \<open>A student name of two blanks is rejected without a request.\<close>

theorem handleSubmit_rejects_invalid_witness:
  "final (handleSubmit (answer_with abc123_uploaded) (answer_with abc123_processed)
            (alice_state\<lparr>studentName := ''  ''\<rparr>) fresh_world)
     = alice_state\<lparr>studentName := ''  '', error := Some (JStr ''Student name is required'')\<rparr>
   \<and> issued (world_after (handleSubmit (answer_with abc123_uploaded) (answer_with abc123_processed)
            (alice_state\<lparr>studentName := ''  ''\<rparr>) fresh_world)) = []"
  using handleSubmit_rejects_invalid [where st = "alice_state\<lparr>studentName := ''  ''\<rparr>"
      and tu = "answer_with abc123_uploaded" and tp = "answer_with abc123_processed" and w = fresh_world]
  by (simp add: trim_def isWhiteSpace_def fresh_world_def)

text \<open>
  C4: on a valid form, when the upload fails the upload request is the only request of the
  run; when it succeeds the run issues exactly two requests, the upload and then the
  processing of the \<open>upload_id\<close> the upload returned, the second starting in the world the
  first one left, with nothing but the "uploaded" state shown in between.
\<close>

theorem process_follows_upload:
  assumes "isFormValid st"
  shows "(case submit_upload tu st w of
            (Inl err, w1) \<Rightarrow>
              issued (world_after (handleSubmit tu tp st w))
                = issued w @ [uploadAnswerSheet_request (map uf_file (uploadedFiles st))
                                (trim (studentName st)) (trim (examId st)) (or_undefined (trim (paperNumber st)))]
          | (Inr uploadResponse, w1) \<Rightarrow>
              issued (world_after (handleSubmit tu tp st w))
                = issued w @ [uploadAnswerSheet_request (map uf_file (uploadedFiles st))
                                (trim (studentName st)) (trim (examId st)) (or_undefined (trim (paperNumber st))),
                              processAnswerSheet_request (ur_upload_id uploadResponse)]
              \<and> rq_url (processAnswerSheet_request (ur_upload_id uploadResponse))
                  = ''/process/answer-sheet/'' @ ur_upload_id uploadResponse
              \<and> world_after (handleSubmit tu tp st w)
                  = snd (processAnswerSheet tp (ur_upload_id uploadResponse) w1)
              \<and> rendered (handleSubmit tu tp st w) = [upload_started st, upload_done (upload_started st)])"
proof (cases "submit_upload tu st w")
  case (Pair r w1)
  have up: "issued w1 = issued w @ [uploadAnswerSheet_request (map uf_file (uploadedFiles st))
                                (trim (studentName st)) (trim (examId st)) (or_undefined (trim (paperNumber st)))]"
    using Pair send_issued [of tu _ w] by (simp add: submit_upload_def uploadAnswerSheet_def) (metis snd_conv)
  show ?thesis
  proof (cases r)
    case (Inl err)
    with Pair up assms show ?thesis by (simp add: handleSubmit_valid)
  next
    case (Inr uploadResponse)
    obtain r2 w2 where p: "processAnswerSheet tp (ur_upload_id uploadResponse) w1 = (r2, w2)"
      by (cases "processAnswerSheet tp (ur_upload_id uploadResponse) w1")
    then have "issued w2 = issued w1 @ [processAnswerSheet_request (ur_upload_id uploadResponse)]"
      using send_issued [of tp _ w1] by (simp add: processAnswerSheet_def) (metis snd_conv)
    with Pair Inr up p assms show ?thesis
      by (cases r2) (simp_all add: handleSubmit_valid processAnswerSheet_request_def api_post_def api_request_def)
  qed
qed

text \<open>Alice's submission: the upload, then the processing of abc123.\<close>

theorem process_follows_upload_witness:
  "issued (world_after (handleSubmit (answer_with abc123_uploaded) (answer_with abc123_processed)
             alice_state fresh_world))
     = [uploadAnswerSheet_request [alice_pdf] ''Alice'' ''MID-2024'' None,
        processAnswerSheet_request ''abc123'']"
  using process_follows_upload [where st = alice_state and tu = "answer_with abc123_uploaded"
      and w = fresh_world and tp = "answer_with abc123_processed"]
  by (simp add: isFormValid_def run_defs alice_state_def abc123_uploaded_def trim_def
      isWhiteSpace_def or_undefined_def)

text \<open>
  Where the detail of the remote answer is absent or a string, a failed upload or a failed
  processing ends the run with both in-progress flags off, no navigation scheduled and a
  message that is not empty: the detail when it is a non-empty string, otherwise the
  error's own message when that is a non-empty string, otherwise "Upload failed".
\<close>

lemma text_failure_is_surfaced:
  assumes "isFormValid st"
    and "fst (submit_upload tu st w) = Inl err
         \<or> (\<exists>uploadResponse w1. submit_upload tu st w = (Inr uploadResponse, w1)
              \<and> fst (processAnswerSheet tp (ur_upload_id uploadResponse) w1) = Inl err)"
    and "err_detail err = None \<or> (\<exists>d. err_detail err = Some (JStr d))"
  shows "error (final (handleSubmit tu tp st w)) = Some (error_value err)
         \<and> is_message (error_value err)
         \<and> error_value err =
             (if err_detail err \<noteq> None \<and> truthy (the (err_detail err)) then the (err_detail err)
              else if err_message err \<notin> {None, Some []} then JStr (the (err_message err))
              else JStr ''Upload failed'')
         \<and> \<not> uploading (final (handleSubmit tu tp st w))
         \<and> \<not> processing (final (handleSubmit tu tp st w))
         \<and> navigation (handleSubmit tu tp st w) = None"
proof -
  have run: "error (final (handleSubmit tu tp st w)) = Some (error_value err)
         \<and> \<not> uploading (final (handleSubmit tu tp st w))
         \<and> \<not> processing (final (handleSubmit tu tp st w))
         \<and> navigation (handleSubmit tu tp st w) = None"
    using assms(2)
  proof
    assume "fst (submit_upload tu st w) = Inl err"
    then obtain w1 where "submit_upload tu st w = (Inl err, w1)"
      by (cases "submit_upload tu st w") simp
    with assms(1) show ?thesis
      by (simp add: handleSubmit_valid finally_flags finally_keeps catch_sets)
  next
    assume "\<exists>uploadResponse w1. submit_upload tu st w = (Inr uploadResponse, w1)
              \<and> fst (processAnswerSheet tp (ur_upload_id uploadResponse) w1) = Inl err"
    then obtain uploadResponse w1 w2 where
      "submit_upload tu st w = (Inr uploadResponse, w1)"
      "processAnswerSheet tp (ur_upload_id uploadResponse) w1 = (Inl err, w2)"
      by (metis prod.collapse)
    with assms(1) show ?thesis
      by (simp add: handleSubmit_valid finally_flags finally_keeps catch_sets)
  qed
  have msg: "is_message (error_value err)"
    using assms(3)
    by (auto simp add: is_message_def error_value_def js_or_def js_or_literal_def
        split: option.splits)
  from run msg error_value_cases [of err] show ?thesis by blast
qed

text \<open>
  C6 does not hold of the code: the catch block stores the detail of the remote answer
  whenever it is truthy, whatever it is. When the upload is rejected with a list of field
  errors as detail, the run ends with that list in the \<open>error\<close> state: the flags are off
  and nothing is suppressed, but what is stored is not a message.
\<close>

theorem list_detail_is_no_message:
  "error (final (handleSubmit (fail_with unprocessable) (answer_with abc123_processed)
                   alice_state fresh_world)) = Some field_errors
   \<and> \<not> is_message field_errors
   \<and> \<not> uploading (final (handleSubmit (fail_with unprocessable) (answer_with abc123_processed)
                   alice_state fresh_world))
   \<and> \<not> processing (final (handleSubmit (fail_with unprocessable) (answer_with abc123_processed)
                   alice_state fresh_world))
   \<and> issued (world_after (handleSubmit (fail_with unprocessable) (answer_with abc123_processed)
                   alice_state fresh_world))
        = [uploadAnswerSheet_request [alice_pdf] ''Alice'' ''MID-2024'' None]"
  by (simp add: handleSubmit_def run_defs alice_state_def trim_def isWhiteSpace_def
      or_undefined_def unprocessable_def field_errors_def error_value_def js_or_def
      js_or_literal_def is_message_def catch_block_def finally_block_def upload_started_def)

text \<open>
  C9: whatever the outcome, both in-progress flags are off when \<open>handleSubmit\<close> is done. A
  run that passes validation switches them off itself; a run that is rejected leaves them
  as they were, which is off: the handler is bound to the submit button only, and that is
  disabled while either flag is on (\<open>enabled_flags\<close>).
\<close>

theorem flags_cleared:
  assumes "isFormValid st \<or> (\<not> uploading st \<and> \<not> processing st)"
  shows "\<not> uploading (final (handleSubmit tu tp st w)) \<and> \<not> processing (final (handleSubmit tu tp st w))"
proof (cases "isFormValid st")
  case True
  then show ?thesis
    by (simp add: handleSubmit_valid finally_flags split: prod.splits sum.splits)
next
  case False
  with assms have "\<not> uploading st \<and> \<not> processing st" by simp
  with False show ?thesis
    by (auto simp add: handleSubmit_def isFormValid_def rejected_def)
qed

text \<open>A failed upload leaves no flag on.\<close>

theorem flags_cleared_witness:
  "\<not> uploading (final (handleSubmit (fail_with unreadable) (answer_with abc123_processed) alice_state fresh_world))
   \<and> \<not> processing (final (handleSubmit (fail_with unreadable) (answer_with abc123_processed) alice_state fresh_world))"
  using flags_cleared [where st = alice_state and tu = "fail_with unreadable"
      and tp = "answer_with abc123_processed" and w = fresh_world]
  by (simp add: alice_state_def)

text \<open>
  C10: when the upload succeeds and the processing fails, the run ends with the error set
  and with the success message exactly as the upload step set it: both banners are shown.
\<close>

theorem success_banner_survives:
  assumes "isFormValid st"
    and "submit_upload tu st w = (Inr uploadResponse, wu)"
    and "processAnswerSheet tp (ur_upload_id uploadResponse) wu = (Inl err, wp)"
  shows "success (final (handleSubmit tu tp st w))
           = Some ''Files uploaded successfully! AI evaluation in progress...''
         \<and> success (final (handleSubmit tu tp st w)) = success (upload_done (upload_started st))
         \<and> rendered (handleSubmit tu tp st w) = [upload_started st, upload_done (upload_started st)]
         \<and> error (final (handleSubmit tu tp st w)) = Some (error_value err)"
  using assms
  by (simp add: handleSubmit_valid finally_keeps catch_sets) (simp add: upload_done_def)

text \<open>Alice's upload succeeds, the evaluation fails: both messages are set.\<close>

theorem success_banner_survives_witness:
  "success (final (handleSubmit (answer_with abc123_uploaded) (fail_with unreadable) alice_state fresh_world))
     = Some ''Files uploaded successfully! AI evaluation in progress...''
   \<and> error (final (handleSubmit (answer_with abc123_uploaded) (fail_with unreadable) alice_state fresh_world))
     = Some (JStr ''Document unreadable'')"
  using success_banner_survives [where st = alice_state and tu = "answer_with abc123_uploaded"
      and w = fresh_world and uploadResponse = abc123_uploaded
      and wu = "\<lparr>remote = (), issued = [uploadAnswerSheet_request [alice_pdf] ''Alice'' ''MID-2024'' None]\<rparr>"
      and tp = "fail_with unreadable" and err = unreadable
      and wp = "\<lparr>remote = (), issued = [uploadAnswerSheet_request [alice_pdf] ''Alice'' ''MID-2024'' None,
                                           processAnswerSheet_request ''abc123'']\<rparr>"]
  by (simp add: isFormValid_def run_defs alice_state_def abc123_uploaded_def trim_def
      isWhiteSpace_def or_undefined_def unreadable_def error_value_def js_or_def js_or_literal_def)

section \<open>File selection\<close>

lemma removeFile_subset: "set (uploadedFiles (removeFile index st)) \<subseteq> set (uploadedFiles st)"
  by (auto simp add: removeFile_def in_set_enumerate_eq)

lemma onDrop_files:
  "map uf_file (uploadedFiles (onDrop createObjectURL fs st)) = map uf_file (uploadedFiles st) @ fs"
  by (simp add: onDrop_def comp_def)

lemma maxSize_value: "maxSize dropzoneOptions = 52428800"
  by (simp add: dropzoneOptions_def)

lemma file_step_limit:
  assumes "\<forall>u \<in> set (uploadedFiles st). file_size (uf_file u) \<le> maxSize dropzoneOptions"
  shows "\<forall>u \<in> set (uploadedFiles (file_step type_ok createObjectURL st ev)).
           file_size (uf_file u) \<le> maxSize dropzoneOptions"
proof (cases ev)
  case (Select files)
  have "\<forall>f \<in> set (map uf_file (uploadedFiles (file_step type_ok createObjectURL st ev))).
          file_size f \<le> maxSize dropzoneOptions"
    using assms unfolding Select file_step.simps onDrop_files
    by (auto simp add: fileAccepted_def)
  then show ?thesis by simp
next
  case (Remove index)
  with assms removeFile_subset [of index st] show ?thesis by auto
qed

lemma file_steps_limit:
  assumes "\<forall>u \<in> set (uploadedFiles st). file_size (uf_file u) \<le> maxSize dropzoneOptions"
  shows "\<forall>u \<in> set (uploadedFiles (file_steps type_ok createObjectURL evs st)).
           file_size (uf_file u) \<le> maxSize dropzoneOptions"
  using assms unfolding file_steps_def
proof (induction evs arbitrary: st)
  case Nil
  then show ?case by simp
next
  case (Cons ev evs)
  from Cons.prems have "\<forall>u \<in> set (uploadedFiles (file_step type_ok createObjectURL st ev)).
           file_size (uf_file u) \<le> maxSize dropzoneOptions"
    by (rule file_step_limit)
  then show ?case using Cons.IH by simp
qed

text \<open>
  C8: after any sequence of selections and removals on the page as it starts, every file
  in the list that \<open>handleSubmit\<close> uploads is at most 50 MiB (50 * 1024 * 1024 bytes), and
  the selection step accepts no file above that size.
\<close>

theorem accepted_files_within_limit:
  "(\<forall>u \<in> set (uploadedFiles (file_steps type_ok createObjectURL evs initial_state)).
      file_size (uf_file u) \<le> 50 * 1024 * 1024)
   \<and> (\<forall>f. 50 * 1024 * 1024 < file_size f \<longrightarrow> \<not> fileAccepted dropzoneOptions type_ok f)"
proof -
  have "\<forall>u \<in> set (uploadedFiles initial_state). file_size (uf_file u) \<le> maxSize dropzoneOptions"
    by (simp add: initial_state_def)
  from file_steps_limit [OF this]
  have "\<forall>u \<in> set (uploadedFiles (file_steps type_ok createObjectURL evs initial_state)).
      file_size (uf_file u) \<le> 50 * 1024 * 1024"
    by (simp add: maxSize_value)
  moreover have "\<forall>f. 50 * 1024 * 1024 < file_size f \<longrightarrow> \<not> fileAccepted dropzoneOptions type_ok f"
    by (simp add: fileAccepted_def maxSize_value)
  ultimately show ?thesis by blast
qed

text \<open>A scan one byte above the limit is dropped together with a small PDF: only the PDF is kept.\<close>

theorem accepted_files_within_limit_witness:
  "map uf_file (uploadedFiles (file_steps (\<lambda>f. True) (\<lambda>f. ''blob:1'')
       [Select [huge_scan, alice_pdf], Remove 3] initial_state)) = [alice_pdf]
   \<and> file_size alice_pdf \<le> 50 * 1024 * 1024
   \<and> 50 * 1024 * 1024 < file_size huge_scan
   \<and> \<not> fileAccepted dropzoneOptions (\<lambda>f. True) huge_scan"
  using accepted_files_within_limit [where type_ok = "\<lambda>f. True" and createObjectURL = "\<lambda>f. ''blob:1''"
      and evs = "[Select [huge_scan, alice_pdf], Remove 3]"]
  by (simp add: file_steps_def onDrop_def removeFile_def fileAccepted_def dropzoneOptions_def
      initial_state_def huge_scan_def alice_pdf_def startsWith_def enumerate_eq_zip)

section \<open>Invariants of the batch statistics\<close>

lemma successes_failures:
  "length (filter (\<lambda>r. br_status r = Success) rs) + length (filter (\<lambda>r. br_status r = Error) rs) = length rs"
proof (induction rs)
  case Nil
  show ?case by simp
next
  case (Cons r rs)
  then show ?case by (cases "br_status r") simp_all
qed

lemma map_filter_all_some:
  assumes "\<forall>x \<in> set xs. f x \<noteq> None"
  shows "map Some (List.map_filter f xs) = map f xs"
  using assms by (induction xs) auto

lemma sum_list_bounds:
  fixes xs :: "rat list"
  assumes "\<forall>x \<in> set xs. 0 \<le> x \<and> x \<le> c"
  shows "0 \<le> sum_list xs \<and> sum_list xs \<le> of_nat (length xs) * c"
  using assms by (induction xs) (auto simp add: algebra_simps)

lemma success_evaluations_ok:
  assumes "\<forall>r \<in> set rs. outcome_ok r"
  shows "\<forall>e \<in> set (success_evaluations rs). 0 \<le> percentage e \<and> percentage e \<le> 100"
  using assms
  by (auto simp add: success_evaluations_def successes_def List.map_filter_def outcome_ok_def
      split: result_status.splits option.splits)

lemma successes_have_evaluation:
  assumes "\<forall>r \<in> set rs. outcome_ok r"
  shows "\<forall>r \<in> set (successes rs). br_evaluation r \<noteq> None"
  using assms
  by (auto simp add: successes_def outcome_ok_def split: result_status.splits option.splits)

lemma average_in_range:
  assumes "\<forall>r \<in> set rs. outcome_ok r"
  shows "0 \<le> average_percentage (batchStatistics rs) \<and> average_percentage (batchStatistics rs) \<le> 100"
proof -
  let ?n = "length (successes rs)"
  let ?ps = "map percentage (success_evaluations rs)"
  have len: "length ?ps = ?n"
    using map_filter_all_some [OF successes_have_evaluation [OF assms]]
    by (metis length_map success_evaluations_def)
  have "\<forall>x \<in> set ?ps. 0 \<le> x \<and> x \<le> 100"
    using success_evaluations_ok [OF assms] by auto
  then have bounds: "0 \<le> sum_list ?ps \<and> sum_list ?ps \<le> of_nat ?n * 100"
    using sum_list_bounds [of ?ps 100] len by simp
  have avg: "average_percentage (batchStatistics rs) = (if ?n = 0 then 0 else sum_list ?ps / of_nat ?n)"
    by (simp add: batchStatistics_def)
  show ?thesis
  proof (cases "?n = 0")
    case True
    then show ?thesis by (simp add: avg)
  next
    case False
    then have pos: "(0::rat) < of_nat ?n" by simp
    from bounds have "sum_list ?ps / of_nat ?n \<le> 100"
      using pos by (simp add: pos_divide_le_eq mult.commute)
    moreover from bounds have "0 \<le> sum_list ?ps / of_nat ?n" by simp
    ultimately show ?thesis using False by (simp add: avg)
  qed
qed

text \<open>
  C5: for the statistics of any list of outcomes, the successful and the failed count add
  up to the total, and the average is 0 when nothing succeeded. When the outcomes are as
  the data model has them, the average lies between 0 and 100 and, when something
  succeeded, every successful outcome contributes its evaluation and the average is the
  sum of their percentages divided by their number.
\<close>

theorem batchStatistics_invariants:
  "successful (batchStatistics rs) + failed (batchStatistics rs) = total_students (batchStatistics rs)
   \<and> (successful (batchStatistics rs) = 0 \<longrightarrow> average_percentage (batchStatistics rs) = 0)
   \<and> ((\<forall>r \<in> set rs. outcome_ok r) \<longrightarrow>
        0 \<le> average_percentage (batchStatistics rs)
        \<and> average_percentage (batchStatistics rs) \<le> 100
        \<and> (successful (batchStatistics rs) > 0 \<longrightarrow>
             map Some (success_evaluations rs) = map br_evaluation (successes rs)
             \<and> average_percentage (batchStatistics rs)
                 = sum_list (map percentage (success_evaluations rs))
                     / of_nat (successful (batchStatistics rs))))"
proof -
  have counts: "successful (batchStatistics rs) + failed (batchStatistics rs) = total_students (batchStatistics rs)"
    by (simp add: batchStatistics_def successes_def successes_failures)
  have zero: "successful (batchStatistics rs) = 0 \<longrightarrow> average_percentage (batchStatistics rs) = 0"
    by (simp add: batchStatistics_def)
  have rest: "0 \<le> average_percentage (batchStatistics rs)
        \<and> average_percentage (batchStatistics rs) \<le> 100
        \<and> (successful (batchStatistics rs) > 0 \<longrightarrow>
             map Some (success_evaluations rs) = map br_evaluation (successes rs)
             \<and> average_percentage (batchStatistics rs)
                 = sum_list (map percentage (success_evaluations rs))
                     / of_nat (successful (batchStatistics rs)))"
    if ok: "\<forall>r \<in> set rs. outcome_ok r"
  proof -
    have "map Some (success_evaluations rs) = map br_evaluation (successes rs)"
      using map_filter_all_some [OF successes_have_evaluation [OF ok]]
      by (simp add: success_evaluations_def)
    moreover have "successful (batchStatistics rs) > 0 \<longrightarrow>
        average_percentage (batchStatistics rs)
          = sum_list (map percentage (success_evaluations rs)) / of_nat (successful (batchStatistics rs))"
      by (simp add: batchStatistics_def)
    ultimately show ?thesis using average_in_range [OF ok] by blast
  qed
  from counts zero rest show ?thesis by blast
qed

text \<open>One success with 90 percent and one failure: counts 1, 1 and 2, average 90.\<close>

theorem batchStatistics_invariants_witness:
  "list_all outcome_ok two_outcomes
   \<and> successful (batchStatistics two_outcomes) = 1
   \<and> failed (batchStatistics two_outcomes) = 1
   \<and> total_students (batchStatistics two_outcomes) = 2
   \<and> average_percentage (batchStatistics two_outcomes) = 90"
  using batchStatistics_invariants [of two_outcomes]
  by (simp add: two_outcomes_def outcome_ok_def batchStatistics_def successes_def
      success_evaluations_def list_all_iff)

end
